theory Spec2Isabelle
  imports Main
begin

section \<open>Data model (types/index.ts)\<close>

text \<open>
  The client-side session store of the chat front end (stores/session-store.ts) and the two
  presentation components that drive it (ChatInput, ChatSidebar). Dates are milliseconds
  (\<open>nat\<close>); every reading of the clock and every generated id is an argument of the
  operation that reads it, so the embedding stays a function of the state.
\<close>

datatype Role = User | Assistant

record ChatMessage =
  m_id :: string
  m_role :: Role
  m_content :: string
  m_timestamp :: nat
  m_agent :: "string option"

record Session =
  s_id :: string
  s_name :: string
  s_agent :: string
  s_messages :: "ChatMessage list"
  s_createdAt :: nat
  s_updatedAt :: nat

record AgentInfo =
  a_name :: string
  a_description :: string
  a_capabilities :: "string list"
  a_status :: string

record ChatRequest =
  rq_message :: string
  rq_session_id :: string
  rq_agent :: string

record ChatResponse =
  rs_message :: string
  rs_agent :: string
  rs_session_id :: string
  rs_timestamp :: string

text \<open>\<open>WSMessage\<close>: the client-to-server frame; \<open>WSChunk\<close>: the server-to-client frame.\<close>

record WSMessage =
  wm_message :: string
  wm_agent :: string

datatype ChunkType = Chunk | Complete | Error

record WSChunk =
  c_type :: ChunkType
  c_content :: "string option"
  c_agent :: "string option"
  c_error :: "string option"

datatype ConnectionMode = Rest | WebSocket

text \<open>\<open>wsConnection\<close> holds a handle: the index of the channel among those created so far.\<close>

record SessionState =
  sessions :: "Session list"
  currentSession :: "Session option"
  agents :: "AgentInfo list"
  selectedAgent :: string
  isLoading :: bool
  isSending :: bool
  connectionMode :: ConnectionMode
  wsConnection :: "nat option"

section \<open>The collaborators: durable store, channels, request log\<close>

datatype ReadyState = CONNECTING | OPEN | CLOSING | CLOSED

text \<open>
  A channel as the store sees it: the session id it was created for, its ready state, and
  the frames handed to \<open>send\<close> while it was open.
\<close>

record Channel =
  ch_session :: string
  ch_readyState :: ReadyState
  ch_sent :: "WSMessage list"

record World =
  store :: SessionState
  db :: "Session list"
  sockets :: "Channel list"
  calls :: "ChatRequest list"

text \<open>
  Modelled from the spec: lib/db (\<open>saveSession\<close>, \<open>getAllSessions\<close>, \<open>getSession\<close>,
  \<open>deleteSession\<close>) is not among the sources. The Durable Store is "a key-value persistence
  layer mapping a session identifier to its full session record", written whole record by
  whole record, last write wins; it is a list of records with one record per id.
\<close>

definition saveSession :: "Session \<Rightarrow> Session list \<Rightarrow> Session list" where
  "saveSession s d =
     (if list_ex (\<lambda>x. s_id x = s_id s) d
      then map (\<lambda>x. if s_id x = s_id s then s else x) d
      else d @ [s])"

definition getAllSessions :: "Session list \<Rightarrow> Session list" where
  "getAllSessions d = d"

definition getSession :: "string \<Rightarrow> Session list \<Rightarrow> Session option" where
  "getSession i d = find (\<lambda>x. s_id x = i) d"

definition deleteSession :: "string \<Rightarrow> Session list \<Rightarrow> Session list" where
  "deleteSession i d = filter (\<lambda>x. s_id x \<noteq> i) d"

text \<open>
  Modelled from the spec: \<open>api.createWebSocket\<close> (lib/api) is not among the sources. It opens
  a Stream Mode channel "addressed per session id"; a fresh channel starts in \<open>Opening\<close>
  (\<open>CONNECTING\<close>). \<open>close\<close> and \<open>send\<close> follow the platform's WebSocket interface: \<open>close\<close>
  moves a connecting or open channel to \<open>CLOSING\<close> and is a no-op otherwise; \<open>send\<close> throws on
  a connecting channel (\<open>None\<close>), queues the frame on an open one and discards it on a closing
  or closed one.
\<close>

definition createWebSocket :: "string \<Rightarrow> Channel" where
  "createWebSocket sid = \<lparr>ch_session = sid, ch_readyState = CONNECTING, ch_sent = []\<rparr>"

definition ws_close :: "nat \<Rightarrow> Channel list \<Rightarrow> Channel list" where
  "ws_close h cs =
     (if h < length cs
      then (case ch_readyState (cs ! h) of
              CONNECTING \<Rightarrow> cs[h := (cs ! h)\<lparr>ch_readyState := CLOSING\<rparr>]
            | OPEN \<Rightarrow> cs[h := (cs ! h)\<lparr>ch_readyState := CLOSING\<rparr>]
            | CLOSING \<Rightarrow> cs
            | CLOSED \<Rightarrow> cs)
      else cs)"

definition ws_send :: "nat \<Rightarrow> WSMessage \<Rightarrow> Channel list \<Rightarrow> Channel list option" where
  "ws_send h m cs =
     (if h < length cs
      then (case ch_readyState (cs ! h) of
              CONNECTING \<Rightarrow> None
            | OPEN \<Rightarrow> Some (cs[h := (cs ! h)\<lparr>ch_sent := ch_sent (cs ! h) @ [m]\<rparr>])
            | CLOSING \<Rightarrow> Some cs
            | CLOSED \<Rightarrow> Some cs)
      else Some cs)"

section \<open>The session store (stores/session-store.ts)\<close>

definition initialState :: SessionState where
  "initialState =
     \<lparr>sessions = [], currentSession = None, agents = [], selectedAgent = [],
      isLoading = False, isSending = False, connectionMode = Rest, wsConnection = None\<rparr>"

definition initialWorld :: World where
  "initialWorld = \<lparr>store = initialState, db = [], sockets = [], calls = []\<rparr>"

text \<open>\<open>loadAgents\<close>: the argument is the outcome of \<open>api.listAgents()\<close>, \<open>None\<close> when it rejects.\<close>

definition loadAgents :: "AgentInfo list option \<Rightarrow> World \<Rightarrow> World" where
  "loadAgents r w =
     (case r of
        None \<Rightarrow> w
      | Some ags \<Rightarrow>
          w\<lparr>store := (store w)\<lparr>agents := ags,
               selectedAgent := (if length ags > 0 then a_name (hd ags) else [])\<rparr>\<rparr>)"

text \<open>
  \<open>createSession\<close>: \<open>sid\<close> is the generated id, \<open>ls\<close> the locale string of the date in the
  name, \<open>tc\<close> and \<open>tu\<close> the two clock readings.
\<close>

definition createSession ::
    "string \<Rightarrow> string \<Rightarrow> nat \<Rightarrow> nat \<Rightarrow> string \<Rightarrow> World \<Rightarrow> Session \<times> World" where
  "createSession sid ls tc tu ag w =
     (let session = \<lparr>s_id = sid, s_name = ''Chat '' @ ls, s_agent = ag, s_messages = [],
                      s_createdAt = tc, s_updatedAt = tu\<rparr>;
          d = saveSession session (db w)
      in (session,
          w\<lparr>db := d,
            store := (store w)\<lparr>sessions := getAllSessions d, currentSession := Some session\<rparr>\<rparr>))"

definition selectSession :: "string \<Rightarrow> World \<Rightarrow> World" where
  "selectSession i w =
     (case getSession i (db w) of
        None \<Rightarrow> w
      | Some session \<Rightarrow>
          w\<lparr>store := (store w)\<lparr>currentSession := Some session,
               selectedAgent := s_agent session\<rparr>\<rparr>)"

definition deleteSessionById :: "string \<Rightarrow> World \<Rightarrow> World" where
  "deleteSessionById i w =
     (let d = deleteSession i (db w)
      in w\<lparr>db := d,
           store := (store w)\<lparr>sessions := getAllSessions d,
             currentSession :=
               (case currentSession (store w) of
                  None \<Rightarrow> None
                | Some cs \<Rightarrow> if s_id cs = i then None else Some cs)\<rparr>\<rparr>)"

definition setSelectedAgent :: "string \<Rightarrow> World \<Rightarrow> World" where
  "setSelectedAgent ag w = w\<lparr>store := (store w)\<lparr>selectedAgent := ag\<rparr>\<rparr>"

definition setConnectionMode :: "ConnectionMode \<Rightarrow> World \<Rightarrow> World" where
  "setConnectionMode mode w = w\<lparr>store := (store w)\<lparr>connectionMode := mode\<rparr>\<rparr>"

definition setSending :: "bool \<Rightarrow> World \<Rightarrow> World" where
  "setSending b w = w\<lparr>store := (store w)\<lparr>isSending := b\<rparr>\<rparr>"

text \<open>\<open>addMessage\<close> and \<open>updateLastMessage\<close>: \<open>now\<close> is the clock reading for \<open>updatedAt\<close>.\<close>

definition addMessage :: "nat \<Rightarrow> ChatMessage \<Rightarrow> World \<Rightarrow> World" where
  "addMessage now message w =
     (case currentSession (store w) of
        None \<Rightarrow> w
      | Some cs \<Rightarrow>
          (let updated = cs\<lparr>s_messages := s_messages cs @ [message], s_updatedAt := now\<rparr>
           in w\<lparr>db := saveSession updated (db w),
                store := (store w)\<lparr>currentSession := Some updated,
                  sessions := map (\<lambda>s. if s_id s = s_id updated then updated else s)
                                (sessions (store w))\<rparr>\<rparr>))"

definition updateLastMessage :: "nat \<Rightarrow> string \<Rightarrow> World \<Rightarrow> World" where
  "updateLastMessage now cont w =
     (case currentSession (store w) of
        None \<Rightarrow> w
      | Some cs \<Rightarrow>
          if length (s_messages cs) = 0 then w
          else
            (let messages = s_messages cs;
                 lst = messages ! (length messages - 1);
                 messages' = messages[length messages - 1 :=
                               lst\<lparr>m_content := m_content lst @ cont\<rparr>];
                 updated = cs\<lparr>s_messages := messages', s_updatedAt := now\<rparr>
             in w\<lparr>db := saveSession updated (db w),
                  store := (store w)\<lparr>currentSession := Some updated,
                    sessions := map (\<lambda>s. if s_id s = s_id updated then updated else s)
                                  (sessions (store w))\<rparr>\<rparr>))"

text \<open>
  \<open>sendMessage\<close> up to its suspension point. \<open>mid\<close>, \<open>t\<close> are the id and timestamp of the user
  message, \<open>now\<close> the clock reading inside \<open>addMessage\<close>. The result says how the call went
  on: no session selected; the frame was handed to the channel and the function ran to its
  end; \<open>send\<close> threw, so the function stopped there; or the Request Mode call was issued and
  the function waits for it.
\<close>

datatype Dispatch = NoSession | Streamed | SendThrew | Awaiting ChatRequest

definition sendMessage_start ::
    "string \<Rightarrow> nat \<Rightarrow> nat \<Rightarrow> string \<Rightarrow> World \<Rightarrow> Dispatch \<times> World" where
  "sendMessage_start mid t now cont w =
     (case currentSession (store w) of
        None \<Rightarrow> (NoSession, w)
      | Some cs \<Rightarrow>
          (let userMessage = \<lparr>m_id = mid, m_role = User, m_content = cont, m_timestamp = t,
                              m_agent = None\<rparr>;
               w1 = setSending True (addMessage now userMessage w)
           in case (connectionMode (store w), wsConnection (store w)) of
                (WebSocket, Some h) \<Rightarrow>
                  (case ws_send h \<lparr>wm_message = cont, wm_agent = selectedAgent (store w)\<rparr>
                          (sockets w1) of
                     None \<Rightarrow> (SendThrew, w1)
                   | Some cs' \<Rightarrow> (Streamed, setSending False (w1\<lparr>sockets := cs'\<rparr>)))
              | _ \<Rightarrow>
                  (let rq = \<lparr>rq_message = cont, rq_session_id = s_id cs,
                             rq_agent = selectedAgent (store w)\<rparr>
                   in (Awaiting rq, w1\<lparr>calls := calls w1 @ [rq]\<rparr>))))"

text \<open>
  The rest of \<open>sendMessage\<close> once the Request Mode call has settled: \<open>Inr\<close> the response,
  \<open>Inl\<close> the \<open>detail\<close> of the rejection (absent, or a string). \<open>aid\<close>, \<open>t\<close>, \<open>now\<close> as above,
  for the assistant message.
\<close>

definition errDetail :: "string option \<Rightarrow> string" where
  "errDetail d =
     (case d of
        None \<Rightarrow> ''Failed to send message''
      | Some x \<Rightarrow> if x = [] then ''Failed to send message'' else x)"

definition sendMessage_settle ::
    "string \<Rightarrow> nat \<Rightarrow> nat \<Rightarrow> string option + ChatResponse \<Rightarrow> World \<Rightarrow> World" where
  "sendMessage_settle aid t now r w =
     (case r of
        Inr response \<Rightarrow>
          setSending False
            (addMessage now
               \<lparr>m_id = aid, m_role = Assistant, m_content = rs_message response,
                m_timestamp = t, m_agent = Some (rs_agent response)\<rparr> w)
      | Inl d \<Rightarrow>
          setSending False
            (addMessage now
               \<lparr>m_id = aid, m_role = Assistant, m_content = ''Error: '' @ errDetail d,
                m_timestamp = t, m_agent = None\<rparr> w))"

text \<open>A whole \<open>sendMessage\<close> call with nothing interleaved at its suspension point.\<close>

definition sendMessage ::
    "string \<Rightarrow> nat \<Rightarrow> nat \<Rightarrow> string \<Rightarrow>
     string \<Rightarrow> nat \<Rightarrow> nat \<Rightarrow> string option + ChatResponse \<Rightarrow> World \<Rightarrow> World" where
  "sendMessage mid t now cont aid t' now' r w =
     (case sendMessage_start mid t now cont w of
        (Awaiting rq, w1) \<Rightarrow> sendMessage_settle aid t' now' r w1
      | (_, w1) \<Rightarrow> w1)"

definition connectWebSocket :: "World \<Rightarrow> World" where
  "connectWebSocket w =
     (let cs1 = (case wsConnection (store w) of
                   None \<Rightarrow> sockets w
                 | Some h \<Rightarrow> ws_close h (sockets w))
      in case currentSession (store w) of
           None \<Rightarrow> w\<lparr>sockets := cs1\<rparr>
         | Some cs \<Rightarrow>
             w\<lparr>sockets := cs1 @ [createWebSocket (s_id cs)],
               store := (store w)\<lparr>wsConnection := Some (length cs1)\<rparr>\<rparr>)"

definition disconnectWebSocket :: "World \<Rightarrow> World" where
  "disconnectWebSocket w =
     (case wsConnection (store w) of
        None \<Rightarrow> w
      | Some h \<Rightarrow>
          w\<lparr>sockets := ws_close h (sockets w), store := (store w)\<lparr>wsConnection := None\<rparr>\<rparr>)"

subsection \<open>The channel's callbacks\<close>

text \<open>
  \<open>onmessage\<close>: the handler installed by \<open>connectWebSocket\<close>, on the decoded frame. A chunk
  without \<open>content\<close> concatenates the text of \<open>undefined\<close>; an error is recognised by a
  truthy \<open>error\<close> field. \<open>eid\<close>, \<open>t\<close> are the id and timestamp of the synthesized message.
\<close>

definition onmessage :: "string \<Rightarrow> nat \<Rightarrow> nat \<Rightarrow> WSChunk \<Rightarrow> World \<Rightarrow> World" where
  "onmessage eid t now data w =
     (if c_type data = Chunk then
        updateLastMessage now
          (case c_content data of None \<Rightarrow> ''undefined'' | Some c \<Rightarrow> c) w
      else if c_type data = Complete then setSending False w
      else (case c_error data of
              None \<Rightarrow> w
            | Some e \<Rightarrow>
                if e = [] then w
                else setSending False
                       (addMessage now
                          \<lparr>m_id = eid, m_role = Assistant, m_content = ''Error: '' @ e,
                           m_timestamp = t, m_agent = None\<rparr> w)))"

text \<open>
  The platform's events on channel \<open>h\<close>: it opens; a frame arrives (dispatched to the
  handler only while the channel is open); it reports an error; it has closed.
\<close>

definition ws_open :: "nat \<Rightarrow> World \<Rightarrow> World" where
  "ws_open h w =
     (if h < length (sockets w) \<and> ch_readyState (sockets w ! h) = CONNECTING
      then w\<lparr>sockets := (sockets w)[h := (sockets w ! h)\<lparr>ch_readyState := OPEN\<rparr>]\<rparr>
      else w)"

definition ws_frame :: "nat \<Rightarrow> string \<Rightarrow> nat \<Rightarrow> nat \<Rightarrow> WSChunk \<Rightarrow> World \<Rightarrow> World" where
  "ws_frame h eid t now data w =
     (if h < length (sockets w) \<and> ch_readyState (sockets w ! h) = OPEN
      then onmessage eid t now data w
      else w)"

definition ws_error :: "nat \<Rightarrow> World \<Rightarrow> World" where
  "ws_error h w = (if h < length (sockets w) then setSending False w else w)"

definition ws_closed :: "nat \<Rightarrow> World \<Rightarrow> World" where
  "ws_closed h w =
     (if h < length (sockets w)
      then w\<lparr>sockets := (sockets w)[h := (sockets w ! h)\<lparr>ch_readyState := CLOSED\<rparr>],
             store := (store w)\<lparr>wsConnection := None\<rparr>\<rparr>
      else w)"

section \<open>The presentation layer's use of the store\<close>

text \<open>
  ChatInput's effect on \<open>[connectionMode, currentSession?.id]\<close>: when either changes, the
  cleanup of the previous run (which captured the previous mode) runs, then the body.
\<close>

definition chatInputEffect :: "World \<Rightarrow> World" where
  "chatInputEffect w =
     (if connectionMode (store w) = WebSocket \<and> currentSession (store w) \<noteq> None
      then connectWebSocket w
      else disconnectWebSocket w)"

definition chatInputCleanup :: "ConnectionMode \<Rightarrow> World \<Rightarrow> World" where
  "chatInputCleanup prevMode w =
     (if prevMode = WebSocket then disconnectWebSocket w else w)"

definition chatInputRerun :: "ConnectionMode \<Rightarrow> World \<Rightarrow> World" where
  "chatInputRerun prevMode w = chatInputEffect (chatInputCleanup prevMode w)"

text \<open>
  ChatSidebar's \<open>handleNewChat\<close>: refuses (with a toast) when no agent is selected,
  otherwise creates a session for the selected agent.
\<close>

definition handleNewChat ::
    "string \<Rightarrow> string \<Rightarrow> nat \<Rightarrow> nat \<Rightarrow> World \<Rightarrow> Session option \<times> World" where
  "handleNewChat sid ls tc tu w =
     (if selectedAgent (store w) = [] then (None, w)
      else (case createSession sid ls tc tu (selectedAgent (store w)) w of
              (s, w') \<Rightarrow> (Some s, w')))"

section \<open>Runs and scenarios\<close>

text \<open>
  What the event loop delivers to one store: a \<open>sendMessage\<close> call (up to its suspension
  point), the settling of a Request Mode call, a frame on a channel.
\<close>

datatype Event =
    ESend string nat nat string
  | ESettle string nat nat "string option + ChatResponse"
  | EFrame nat string nat nat WSChunk

fun step :: "Event \<Rightarrow> World \<Rightarrow> World" where
  "step (ESend mid t now c) w = snd (sendMessage_start mid t now c w)"
| "step (ESettle aid t now r) w = sendMessage_settle aid t now r w"
| "step (EFrame h eid t now d) w = ws_frame h eid t now d w"

definition run :: "Event list \<Rightarrow> World \<Rightarrow> World" where
  "run evs w = fold step evs w"

text \<open>
  \<open>grown xs ys\<close>: \<open>ys\<close> is \<open>xs\<close> with text concatenated to the content of its last element
  and further elements appended. \<open>curGrown cs w0 w\<close>, of a store \<open>w0\<close> where \<open>cs\<close> is
  selected and a later store \<open>w\<close>: the session selected in \<open>w\<close> is \<open>cs\<close> with its messages
  grown; the in-memory list has kept its length, its entries with another id, and holds the
  selected session where it held \<open>cs\<close>.
\<close>

definition grown :: "ChatMessage list \<Rightarrow> ChatMessage list \<Rightarrow> bool" where
  "grown xs ys \<longleftrightarrow>
     xs = [] \<or>
     (\<exists>c suf. ys = butlast xs @ [(last xs)\<lparr>m_content := m_content (last xs) @ c\<rparr>] @ suf)"

definition curGrown :: "Session \<Rightarrow> World \<Rightarrow> World \<Rightarrow> bool" where
  "curGrown cs w0 w \<longleftrightarrow>
     (\<exists>u. currentSession (store w) = Some u \<and> s_id u = s_id cs \<and>
          grown (s_messages cs) (s_messages u) \<and>
          length (sessions (store w)) = length (sessions (store w0)) \<and>
          (\<forall>i < length (sessions (store w0)).
             (s_id (sessions (store w0) ! i) \<noteq> s_id cs \<longrightarrow>
                sessions (store w) ! i = sessions (store w0) ! i) \<and>
             (sessions (store w0) ! i = cs \<longrightarrow> sessions (store w) ! i = u)))"

text \<open>
  Concrete worlds: the catalog is loaded and a chat created (\<open>oneSession\<close>); then Stream
  Mode is switched on, the effect has connected and the channel has opened (\<open>streamReady\<close>);
  the same with a second chat created before (\<open>twoSessions\<close>, \<open>twoSessionsStream\<close>).
\<close>

definition catalog :: "AgentInfo list" where
  "catalog = [\<lparr>a_name = ''agentX'', a_description = ''demo'', a_capabilities = [],
               a_status = ''ready''\<rparr>]"

definition oneSession :: World where
  "oneSession = snd (handleNewChat ''s1'' ''now'' 1 1 (loadAgents (Some catalog) initialWorld))"

definition streamReady :: World where
  "streamReady = ws_open 0 (chatInputRerun Rest (setConnectionMode WebSocket oneSession))"

definition twoSessions :: World where
  "twoSessions = snd (handleNewChat ''s2'' ''later'' 2 2 oneSession)"

definition twoSessionsStream :: World where
  "twoSessionsStream = ws_open 0 (chatInputRerun Rest (setConnectionMode WebSocket twoSessions))"

definition chunkFrame :: "string \<Rightarrow> WSChunk" where
  "chunkFrame c = \<lparr>c_type = Chunk, c_content = Some c, c_agent = None, c_error = None\<rparr>"

definition completeFrame :: WSChunk where
  "completeFrame = \<lparr>c_type = Complete, c_content = None, c_agent = None, c_error = None\<rparr>"

section \<open>Helper facts\<close>

lemmas scenario_defs =
  catalog_def oneSession_def streamReady_def twoSessions_def twoSessionsStream_def
  chunkFrame_def completeFrame_def initialWorld_def initialState_def
  createSession_def saveSession_def getAllSessions_def getSession_def
  setConnectionMode_def setSelectedAgent_def setSending_def selectSession_def
  chatInputRerun_def chatInputEffect_def chatInputCleanup_def
  connectWebSocket_def disconnectWebSocket_def createWebSocket_def ws_close_def ws_send_def
  ws_open_def ws_frame_def onmessage_def addMessage_def updateLastMessage_def
  sendMessage_start_def sendMessage_settle_def sendMessage_def errDetail_def
  loadAgents_def handleNewChat_def run_def Let_def

lemma getSession_saveSession: "getSession (s_id s) (saveSession s d) = Some s"
proof (induction d)
  case Nil
  show ?case by (simp add: getSession_def saveSession_def)
next
  case (Cons x d)
  then show ?case
    by (auto simp: getSession_def saveSession_def list_ex_iff split: if_splits)
qed

lemma ws_close_open:
  "h < length cs \<Longrightarrow> ch_readyState (cs ! h) = OPEN \<Longrightarrow>
   ws_close h cs = cs[h := (cs ! h)\<lparr>ch_readyState := CLOSING\<rparr>]"
  by (simp add: ws_close_def)

lemma selectSession_channel:
  "sockets (selectSession i w) = sockets w \<and>
   wsConnection (store (selectSession i w)) = wsConnection (store w) \<and>
   connectionMode (store (selectSession i w)) = connectionMode (store w)"
  by (simp add: selectSession_def split: option.splits)

lemma rerun_closes_prior:
  assumes "wsConnection (store w) = Some h"
      and "h < length (sockets w)"
      and "ch_readyState (sockets w ! h) = OPEN"
  shows "ch_readyState (sockets (chatInputRerun m w) ! h) = CLOSING
       \<and> (wsConnection (store (chatInputRerun m w)) = None
          \<or> (\<exists>u. currentSession (store (chatInputRerun m w)) = Some u
                \<and> wsConnection (store (chatInputRerun m w)) = Some (length (sockets w))
                \<and> sockets (chatInputRerun m w) ! length (sockets w) =
                    createWebSocket (s_id u)))"
  using assms
  by (cases m)
     (auto simp: chatInputRerun_def chatInputCleanup_def chatInputEffect_def
        connectWebSocket_def disconnectWebSocket_def ws_close_open ws_close_def nth_append
        Let_def split: option.splits)

subsection \<open>Growth of a message list\<close>

lemma grown_refl: "grown xs xs"
proof (cases "xs = []")
  case True
  then show ?thesis by (simp add: grown_def)
next
  case False
  then have "xs = butlast xs @ [(last xs)\<lparr>m_content := m_content (last xs) @ []\<rparr>] @ []"
    by simp
  then show ?thesis unfolding grown_def by blast
qed

lemma grown_append: "grown xs ys \<Longrightarrow> grown xs (ys @ [m])"
  unfolding grown_def by auto

lemma grown_update:
  assumes "grown xs ys" and "ys \<noteq> []"
  shows "grown xs (ys[length ys - 1 :=
           (ys ! (length ys - 1))\<lparr>m_content := m_content (ys ! (length ys - 1)) @ d\<rparr>])"
proof (cases "xs = []")
  case True
  then show ?thesis by (simp add: grown_def)
next
  case False
  with assms obtain c suf
    where ys: "ys = butlast xs @ [(last xs)\<lparr>m_content := m_content (last xs) @ c\<rparr>] @ suf"
    unfolding grown_def by blast
  let ?g = "(last xs)\<lparr>m_content := m_content (last xs) @ c\<rparr>"
  show ?thesis
  proof (cases "suf = []")
    case True
    have len: "length ys - 1 = length (butlast xs)"
      using ys True by simp
    have "ys ! (length ys - 1) = ?g"
      unfolding len using ys True by (metis append_Nil2 nth_append_length)
    moreover have "ys[length ys - 1 := z] = butlast xs @ [z]" for z
      unfolding len using ys True by (metis append_Nil2 list_update_length)
    ultimately have
      "ys[length ys - 1 :=
          (ys ! (length ys - 1))\<lparr>m_content := m_content (ys ! (length ys - 1)) @ d\<rparr>]
       = butlast xs @ [(last xs)\<lparr>m_content := m_content (last xs) @ (c @ d)\<rparr>] @ []"
      by simp
    then show ?thesis unfolding grown_def by blast
  next
    case False
    have "ys[length ys - 1 := z] = butlast ys @ [z]" for z
      using assms(2) by (metis append_butlast_last_id length_butlast list_update_length)
    moreover have "butlast ys = butlast xs @ [?g] @ butlast suf"
      using ys False by (simp add: butlast_append)
    ultimately have "ys[length ys - 1 := z] = butlast xs @ [?g] @ (butlast suf @ [z])" for z
      by simp
    then show ?thesis unfolding grown_def by blast
  qed
qed

lemma curGrown_addMessage: "curGrown cs w0 w \<Longrightarrow> curGrown cs w0 (addMessage now m w)"
  unfolding curGrown_def by (auto simp: addMessage_def Let_def grown_append)

lemma curGrown_updateLastMessage:
  "curGrown cs w0 w \<Longrightarrow> curGrown cs w0 (updateLastMessage now c w)"
  unfolding curGrown_def
  by (auto simp: updateLastMessage_def Let_def grown_update [unfolded One_nat_def])

lemma curGrown_setSending: "curGrown cs w0 (setSending b w) = curGrown cs w0 w"
  by (simp add: curGrown_def setSending_def)

lemma curGrown_sockets: "curGrown cs w0 (w\<lparr>sockets := x\<rparr>) = curGrown cs w0 w"
  by (simp add: curGrown_def)

lemma curGrown_calls: "curGrown cs w0 (w\<lparr>calls := x\<rparr>) = curGrown cs w0 w"
  by (simp add: curGrown_def)

lemma curGrown_step: "curGrown cs w0 w \<Longrightarrow> curGrown cs w0 (step e w)"
proof (cases e)
  case (ESend mid t now c)
  assume "curGrown cs w0 w"
  then show ?thesis using ESend
    by (auto simp: sendMessage_start_def Let_def curGrown_setSending curGrown_sockets
        curGrown_calls curGrown_addMessage split: option.splits ConnectionMode.splits)
next
  case (ESettle aid t now r)
  assume "curGrown cs w0 w"
  then show ?thesis using ESettle
    by (auto simp: sendMessage_settle_def curGrown_setSending curGrown_addMessage
        split: sum.splits)
next
  case (EFrame h eid t now d)
  assume "curGrown cs w0 w"
  then show ?thesis using EFrame
    by (auto simp: ws_frame_def onmessage_def curGrown_setSending curGrown_addMessage
        curGrown_updateLastMessage split: option.splits)
qed

lemma curGrown_run: "curGrown cs w0 w \<Longrightarrow> curGrown cs w0 (run evs w)"
  unfolding run_def by (induction evs arbitrary: w) (simp_all add: curGrown_step)


section \<open>Stream Mode turn\<close>

text \<open>
  C1. Scenario 2 of the specification: in Stream Mode, after a user send of "hi", the frames
  chunk("He"), chunk("llo"), complete arrive. The specification expects an assistant message
  with content "Hello". On the code the chunks are concatenated to the last message, which is
  the user's: the session ends with the single user message "hiHello" and no assistant
  message; the sending flag is false.
\<close>

theorem stream_scenario_result:
  "currentSession (store
     (ws_frame 0 ''e3'' 5 5 completeFrame
       (ws_frame 0 ''e2'' 4 4 (chunkFrame ''llo'')
         (ws_frame 0 ''e1'' 3 3 (chunkFrame ''He'')
           (snd (sendMessage_start ''m1'' 2 2 ''hi'' streamReady)))))) =
   Some \<lparr>s_id = ''s1'', s_name = ''Chat now'', s_agent = ''agentX'',
         s_messages = [\<lparr>m_id = ''m1'', m_role = User, m_content = ''hiHello'',
                        m_timestamp = 2, m_agent = None\<rparr>],
         s_createdAt = 1, s_updatedAt = 4\<rparr>
   \<and> isSending (store
     (ws_frame 0 ''e3'' 5 5 completeFrame
       (ws_frame 0 ''e2'' 4 4 (chunkFrame ''llo'')
         (ws_frame 0 ''e1'' 3 3 (chunkFrame ''He'')
           (snd (sendMessage_start ''m1'' 2 2 ''hi'' streamReady)))))) = False"
  by (simp add: scenario_defs)

text \<open>
  A Stream Mode send over an open channel runs \<open>sendMessage\<close> to its end, and its last
  statement clears the sending flag, whatever the channel answers.
\<close>

lemma stream_send_flag:
  assumes "currentSession (store w) = Some cs"
      and "connectionMode (store w) = WebSocket"
      and "wsConnection (store w) = Some h"
      and "h < length (sockets w)"
      and "ch_readyState (sockets w ! h) = OPEN"
  shows "fst (sendMessage_start mid t now c w) = Streamed
       \<and> isSending (store (snd (sendMessage_start mid t now c w))) = False"
  using assms
  by (simp add: sendMessage_start_def ws_send_def addMessage_def setSending_def Let_def)

text \<open>
  C2. The specification has the sending flag stay set from a Stream Mode send until a frame
  signals completion or error. On the code the send over the open channel of \<open>streamReady\<close>
  hands the frame to the channel and returns with the flag already false, no frame having
  arrived.
\<close>

theorem stream_send_clears_sending:
  "fst (sendMessage_start ''m1'' 2 2 ''hi'' streamReady) = Streamed
   \<and> ch_sent (sockets (snd (sendMessage_start ''m1'' 2 2 ''hi'' streamReady)) ! 0) =
       [\<lparr>wm_message = ''hi'', wm_agent = ''agentX''\<rparr>]
   \<and> isSending (store (snd (sendMessage_start ''m1'' 2 2 ''hi'' streamReady))) = False"
  by (simp add: scenario_defs)

section \<open>Channel teardown\<close>

text \<open>
  C3, as amended. \<open>setConnectionMode\<close> only records the mode. The teardown is done by
  ChatInput's effect, which runs on the change: after a toggle from Stream Mode to Request
  Mode while the held channel is open, the effect's cleanup (\<open>disconnectWebSocket\<close>) closes
  that channel and clears the handle; a frame arriving on it afterwards is not processed,
  and the next send does not go over the channel.
\<close>

theorem toggle_teardown_by_effect:
  assumes "connectionMode (store w) = WebSocket"
      and "wsConnection (store w) = Some h"
      and "h < length (sockets w)"
      and "ch_readyState (sockets w ! h) = OPEN"
  shows "setConnectionMode Rest w = w\<lparr>store := (store w)\<lparr>connectionMode := Rest\<rparr>\<rparr>
       \<and> wsConnection (store (chatInputRerun WebSocket (setConnectionMode Rest w))) = None
       \<and> ch_readyState (sockets (chatInputRerun WebSocket (setConnectionMode Rest w)) ! h)
           = CLOSING
       \<and> ws_frame h eid t now d (chatInputRerun WebSocket (setConnectionMode Rest w)) =
           chatInputRerun WebSocket (setConnectionMode Rest w)
       \<and> fst (sendMessage_start mid t' now' c
                (chatInputRerun WebSocket (setConnectionMode Rest w))) \<noteq> Streamed"
  using assms
  by (auto simp: setConnectionMode_def chatInputRerun_def chatInputCleanup_def
      chatInputEffect_def disconnectWebSocket_def ws_close_def ws_frame_def
      sendMessage_start_def Let_def split: option.splits ConnectionMode.splits)

text \<open>The amended C3 at \<open>streamReady\<close>, whose channel 0 is open.\<close>

theorem toggle_teardown_by_effect_witness:
  "connectionMode (store streamReady) = WebSocket
   \<and> wsConnection (store streamReady) = Some 0
   \<and> 0 < length (sockets streamReady)
   \<and> ch_readyState (sockets streamReady ! 0) = OPEN
   \<and> wsConnection (store (chatInputRerun WebSocket (setConnectionMode Rest streamReady))) = None
   \<and> ch_readyState (sockets (chatInputRerun WebSocket (setConnectionMode Rest streamReady)) ! 0)
       = CLOSING
   \<and> ws_frame 0 ''e1'' 3 3 (chunkFrame ''He'')
        (chatInputRerun WebSocket (setConnectionMode Rest streamReady)) =
       chatInputRerun WebSocket (setConnectionMode Rest streamReady)"
proof -
  have h1: "connectionMode (store streamReady) = WebSocket"
    by (simp add: scenario_defs)
  have h2: "wsConnection (store streamReady) = Some 0"
    by (simp add: scenario_defs)
  have h3: "0 < length (sockets streamReady)"
    by (simp add: scenario_defs)
  have h4: "ch_readyState (sockets streamReady ! 0) = OPEN"
    by (simp add: scenario_defs)
  show ?thesis
    using h1 h2 h3 h4
      toggle_teardown_by_effect [OF h1 h2 h3 h4, of "''e1''" 3 3 "chunkFrame ''He''"]
    by blast
qed

text \<open>
  C3 as stated fails: after \<open>setConnectionMode Rest\<close> alone the store still holds channel 0,
  the channel is still open, and a chunk arriving on it is processed (the last message grows
  to "hiHe").
\<close>

theorem setConnectionMode_keeps_channel:
  "wsConnection (store (setConnectionMode Rest streamReady)) = Some 0
   \<and> ch_readyState (sockets (setConnectionMode Rest streamReady) ! 0) = OPEN
   \<and> map_option (map m_content \<circ> s_messages)
       (currentSession (store
          (ws_frame 0 ''e1'' 3 3 (chunkFrame ''He'')
            (setConnectionMode Rest (snd (sendMessage_start ''m1'' 2 2 ''hi'' streamReady))))))
       = Some [''hiHe'']"
  by (simp add: scenario_defs)

text \<open>
  C4, as amended. The store holds at most one channel handle (one slot). While it holds an
  open channel: \<open>selectSession\<close> leaves the channel held and open; the ChatInput effect that
  follows closes it, and the handle held afterwards, if any, is a channel created then for
  the session selected now; \<open>disconnectWebSocket\<close> closes it and clears the handle;
  \<open>connectWebSocket\<close> closes it before it creates the one new channel, bound to the id of
  the selected session.
\<close>

theorem channel_bound_on_connect:
  assumes "wsConnection (store w) = Some h"
      and "h < length (sockets w)"
      and "ch_readyState (sockets w ! h) = OPEN"
  shows "sockets (selectSession i w) = sockets w
       \<and> wsConnection (store (selectSession i w)) = Some h
       \<and> ch_readyState (sockets (chatInputRerun m (selectSession i w)) ! h) = CLOSING
       \<and> (wsConnection (store (chatInputRerun m (selectSession i w))) = None
          \<or> (\<exists>u. currentSession (store (chatInputRerun m (selectSession i w))) = Some u
                \<and> wsConnection (store (chatInputRerun m (selectSession i w))) =
                    Some (length (sockets w))
                \<and> sockets (chatInputRerun m (selectSession i w)) ! length (sockets w) =
                    createWebSocket (s_id u)))
       \<and> ch_readyState (sockets (disconnectWebSocket w) ! h) = CLOSING
       \<and> wsConnection (store (disconnectWebSocket w)) = None
       \<and> (\<forall>cs. currentSession (store w) = Some cs \<longrightarrow>
            ch_readyState (sockets (connectWebSocket w) ! h) = CLOSING
            \<and> wsConnection (store (connectWebSocket w)) = Some (length (sockets w))
            \<and> sockets (connectWebSocket w) =
                (sockets w)[h := (sockets w ! h)\<lparr>ch_readyState := CLOSING\<rparr>] @
                [createWebSocket (s_id cs)])"
proof -
  have sel: "wsConnection (store (selectSession i w)) = Some h"
       "h < length (sockets (selectSession i w))"
       "ch_readyState (sockets (selectSession i w) ! h) = OPEN"
       "sockets (selectSession i w) = sockets w"
    using assms by (simp_all add: selectSession_channel)
  have r: "ch_readyState (sockets (chatInputRerun m (selectSession i w)) ! h) = CLOSING
       \<and> (wsConnection (store (chatInputRerun m (selectSession i w))) = None
          \<or> (\<exists>u. currentSession (store (chatInputRerun m (selectSession i w))) = Some u
                \<and> wsConnection (store (chatInputRerun m (selectSession i w))) =
                    Some (length (sockets w))
                \<and> sockets (chatInputRerun m (selectSession i w)) ! length (sockets w) =
                    createWebSocket (s_id u)))"
    using rerun_closes_prior [OF sel(1) sel(2) sel(3), of m] by (simp add: sel(4))
  have d: "ch_readyState (sockets (disconnectWebSocket w) ! h) = CLOSING
       \<and> wsConnection (store (disconnectWebSocket w)) = None"
    using assms by (simp add: disconnectWebSocket_def ws_close_open)
  have c: "\<forall>cs. currentSession (store w) = Some cs \<longrightarrow>
            ch_readyState (sockets (connectWebSocket w) ! h) = CLOSING
            \<and> wsConnection (store (connectWebSocket w)) = Some (length (sockets w))
            \<and> sockets (connectWebSocket w) =
                (sockets w)[h := (sockets w ! h)\<lparr>ch_readyState := CLOSING\<rparr>] @
                [createWebSocket (s_id cs)]"
    using assms by (simp add: connectWebSocket_def ws_close_open nth_append Let_def)
  show ?thesis using sel(1) sel(4) r d c by blast
qed

text \<open>
  The amended C4 at \<open>twoSessionsStream\<close> (chat s2 selected, channel 0 open and bound to it),
  on selecting chat s1: channel 0 is closed, channel 1 is held and bound to s1.
\<close>

theorem channel_bound_on_connect_witness:
  "wsConnection (store twoSessionsStream) = Some 0
   \<and> 0 < length (sockets twoSessionsStream)
   \<and> ch_readyState (sockets twoSessionsStream ! 0) = OPEN
   \<and> map_option s_id (currentSession (store twoSessionsStream)) = Some ''s2''
   \<and> ch_readyState
       (sockets (chatInputRerun WebSocket (selectSession ''s1'' twoSessionsStream)) ! 0) = CLOSING
   \<and> wsConnection (store (chatInputRerun WebSocket (selectSession ''s1'' twoSessionsStream)))
       = Some 1
   \<and> ch_session (sockets (chatInputRerun WebSocket (selectSession ''s1'' twoSessionsStream)) ! 1)
       = ''s1''
   \<and> ch_readyState (sockets (connectWebSocket twoSessionsStream) ! 0) = CLOSING
   \<and> ch_session (sockets (connectWebSocket twoSessionsStream) ! 1) = ''s2''"
proof -
  have h1: "wsConnection (store twoSessionsStream) = Some 0"
    by (simp add: scenario_defs)
  have h2: "0 < length (sockets twoSessionsStream)"
    by (simp add: scenario_defs)
  have h3: "ch_readyState (sockets twoSessionsStream ! 0) = OPEN"
    by (simp add: scenario_defs)
  have h4: "map_option s_id (currentSession (store twoSessionsStream)) = Some ''s2''"
    by (simp add: scenario_defs)
  have e1: "wsConnection (store (chatInputRerun WebSocket (selectSession ''s1'' twoSessionsStream)))
       = Some 1"
    by (simp add: scenario_defs)
  have e2: "ch_session
       (sockets (chatInputRerun WebSocket (selectSession ''s1'' twoSessionsStream)) ! 1) = ''s1''"
    by (simp add: scenario_defs)
  have e3: "ch_session (sockets (connectWebSocket twoSessionsStream) ! 1) = ''s2''"
    by (simp add: scenario_defs)
  have e4: "\<exists>cs. currentSession (store twoSessionsStream) = Some cs"
    by (simp add: scenario_defs)
  show ?thesis
    using h1 h2 h3 h4 e1 e2 e3 e4
      channel_bound_on_connect [OF h1 h2 h3, of "''s1''" WebSocket]
    by blast
qed

text \<open>
  C4 as stated fails: after \<open>selectSession\<close> of chat s1 the store still holds channel 0,
  open and bound to chat s2, which is no longer the selected one.
\<close>

theorem selectSession_keeps_channel:
  "map_option s_id (currentSession (store (selectSession ''s1'' twoSessionsStream))) = Some ''s1''
   \<and> wsConnection (store (selectSession ''s1'' twoSessionsStream)) = Some 0
   \<and> ch_readyState (sockets (selectSession ''s1'' twoSessionsStream) ! 0) = OPEN
   \<and> ch_session (sockets (selectSession ''s1'' twoSessionsStream) ! 0) = ''s2''"
  by (simp add: scenario_defs)

text \<open>
  The close event of an earlier channel is outside the amended C4: \<open>onclose\<close> clears the
  handle whichever channel is held. After a reconnect at \<open>streamReady\<close>, the close event of
  channel 0 drops the handle of channel 1, and the next connect leaves channel 1 open beside
  the new channel 2.
\<close>

lemma stale_close_drops_handle:
  "wsConnection (store (connectWebSocket streamReady)) = Some 1
   \<and> wsConnection (store (ws_closed 0 (connectWebSocket streamReady))) = None
   \<and> map ch_readyState
       (sockets (connectWebSocket (ws_open 1 (ws_closed 0 (connectWebSocket streamReady)))))
       = [CLOSED, OPEN, CONNECTING]"
  by (simp add: scenario_defs ws_closed_def)

section \<open>Sending\<close>

text \<open>
  C5, as amended. \<open>sendMessage\<close> does not consult the sending flag: with a session
  selected, a call made while a send is pending (flag true) does exactly what the same call
  does with the flag false; it is not rejected, the user message is appended, and in Request
  Mode the transport call is made.
\<close>

theorem sendMessage_ignores_sending:
  assumes "currentSession (store w) = Some cs"
  shows "sendMessage_start mid t now c (setSending True w) =
           sendMessage_start mid t now c (setSending False w)
       \<and> fst (sendMessage_start mid t now c (setSending True w)) \<noteq> NoSession
       \<and> (\<exists>u. currentSession (store (snd (sendMessage_start mid t now c (setSending True w))))
                = Some u
              \<and> s_messages u = s_messages cs @
                  [\<lparr>m_id = mid, m_role = User, m_content = c, m_timestamp = t,
                    m_agent = None\<rparr>])
       \<and> (connectionMode (store w) = Rest \<longrightarrow>
            calls (snd (sendMessage_start mid t now c (setSending True w))) =
              calls w @ [\<lparr>rq_message = c, rq_session_id = s_id cs,
                          rq_agent = selectedAgent (store w)\<rparr>])"
  using assms
  by (auto simp: sendMessage_start_def setSending_def addMessage_def Let_def
      split: option.splits ConnectionMode.splits)

text \<open>The amended C5 at \<open>oneSession\<close>, in Request Mode.\<close>

theorem sendMessage_ignores_sending_witness:
  "map_option s_id (currentSession (store oneSession)) = Some ''s1''
   \<and> connectionMode (store oneSession) = Rest
   \<and> sendMessage_start ''m2'' 3 3 ''again'' (setSending True oneSession) =
       sendMessage_start ''m2'' 3 3 ''again'' (setSending False oneSession)
   \<and> fst (sendMessage_start ''m2'' 3 3 ''again'' (setSending True oneSession)) \<noteq> NoSession
   \<and> calls (snd (sendMessage_start ''m2'' 3 3 ''again'' (setSending True oneSession))) =
       [\<lparr>rq_message = ''again'', rq_session_id = ''s1'', rq_agent = ''agentX''\<rparr>]"
proof -
  have h1: "currentSession (store oneSession) =
      Some \<lparr>s_id = ''s1'', s_name = ''Chat now'', s_agent = ''agentX'', s_messages = [],
            s_createdAt = 1, s_updatedAt = 1\<rparr>"
    by (simp add: scenario_defs)
  have h2: "connectionMode (store oneSession) = Rest"
    by (simp add: scenario_defs)
  have h3: "calls oneSession = [] \<and> selectedAgent (store oneSession) = ''agentX''"
    by (simp add: scenario_defs)
  have h0: "map_option s_id (currentSession (store oneSession)) = Some ''s1''"
    by (simp add: h1)
  note t = sendMessage_ignores_sending [OF h1, of "''m2''" 3 3 "''again''"]
  have a: "sendMessage_start ''m2'' 3 3 ''again'' (setSending True oneSession) =
       sendMessage_start ''m2'' 3 3 ''again'' (setSending False oneSession)"
    using t by blast
  have b: "fst (sendMessage_start ''m2'' 3 3 ''again'' (setSending True oneSession)) \<noteq> NoSession"
    using t by blast
  have "calls (snd (sendMessage_start ''m2'' 3 3 ''again'' (setSending True oneSession))) =
      calls oneSession @
      [\<lparr>rq_message = ''again'',
        rq_session_id = s_id \<lparr>s_id = ''s1'', s_name = ''Chat now'', s_agent = ''agentX'',
                               s_messages = [], s_createdAt = 1, s_updatedAt = 1\<rparr>,
        rq_agent = selectedAgent (store oneSession)\<rparr>]"
    using t h2 by blast
  then have d: "calls (snd (sendMessage_start ''m2'' 3 3 ''again'' (setSending True oneSession))) =
      [\<lparr>rq_message = ''again'', rq_session_id = ''s1'', rq_agent = ''agentX''\<rparr>]"
    by (simp add: h3)
  show ?thesis
    using h0 h2 a b d by blast
qed

text \<open>
  C5 as stated fails: in Request Mode a second \<open>sendMessage\<close>, issued while the first is
  still pending (flag true), appends its user message and issues its own transport call.
\<close>

theorem second_send_not_rejected:
  "isSending (store (snd (sendMessage_start ''m1'' 2 2 ''hi'' oneSession))) = True
   \<and> map_option (map m_content \<circ> s_messages)
       (currentSession (store (snd (sendMessage_start ''m2'' 3 3 ''again''
          (snd (sendMessage_start ''m1'' 2 2 ''hi'' oneSession))))))
       = Some [''hi'', ''again'']
   \<and> map rq_message (calls (snd (sendMessage_start ''m2'' 3 3 ''again''
          (snd (sendMessage_start ''m1'' 2 2 ''hi'' oneSession)))))
       = [''hi'', ''again'']"
  by (simp add: scenario_defs)

section \<open>Creating a session, loading the catalog\<close>

text \<open>
  C6, as amended. \<open>createSession\<close> applies no check to the agent: for every agent string,
  the empty one included, it constructs a session with an empty message list and the clock
  readings as timestamps, persists it, refreshes the in-memory list from the store, makes it
  the selected session and returns it. The non-empty agent is required by the caller:
  \<open>handleNewChat\<close> refuses before any side effect when no agent is selected, and otherwise
  calls \<open>createSession\<close> with the selected agent.
\<close>

theorem createSession_any_agent:
  "fst (createSession sid ls tc tu ag w) =
     \<lparr>s_id = sid, s_name = ''Chat '' @ ls, s_agent = ag, s_messages = [],
      s_createdAt = tc, s_updatedAt = tu\<rparr>
   \<and> getSession sid (db (snd (createSession sid ls tc tu ag w))) =
       Some (fst (createSession sid ls tc tu ag w))
   \<and> sessions (store (snd (createSession sid ls tc tu ag w))) =
       getAllSessions (db (snd (createSession sid ls tc tu ag w)))
   \<and> currentSession (store (snd (createSession sid ls tc tu ag w))) =
       Some (fst (createSession sid ls tc tu ag w))
   \<and> (selectedAgent (store w) = [] \<longrightarrow> handleNewChat sid ls tc tu w = (None, w))
   \<and> (selectedAgent (store w) \<noteq> [] \<longrightarrow>
        handleNewChat sid ls tc tu w =
          (Some (fst (createSession sid ls tc tu (selectedAgent (store w)) w)),
           snd (createSession sid ls tc tu (selectedAgent (store w)) w)))"
proof -
  let ?s = "\<lparr>s_id = sid, s_name = ''Chat '' @ ls, s_agent = ag, s_messages = [],
      s_createdAt = tc, s_updatedAt = tu\<rparr>"
  have "getSession (s_id ?s) (saveSession ?s (db w)) = Some ?s"
    by (rule getSession_saveSession)
  then show ?thesis
    by (simp add: createSession_def handleNewChat_def Let_def split: prod.splits)
qed

text \<open>
  The amended C6 with no agent selected (\<open>initialWorld\<close>) and with one selected (the
  catalog loaded).
\<close>

theorem createSession_any_agent_witness:
  "selectedAgent (store initialWorld) = []
   \<and> handleNewChat ''s1'' ''now'' 1 1 initialWorld = (None, initialWorld)
   \<and> selectedAgent (store (loadAgents (Some catalog) initialWorld)) \<noteq> []
   \<and> fst (handleNewChat ''s1'' ''now'' 1 1 (loadAgents (Some catalog) initialWorld)) =
       Some \<lparr>s_id = ''s1'', s_name = ''Chat now'', s_agent = ''agentX'', s_messages = [],
             s_createdAt = 1, s_updatedAt = 1\<rparr>"
proof -
  have h1: "selectedAgent (store initialWorld) = []"
    by (simp add: scenario_defs)
  have h2: "selectedAgent (store (loadAgents (Some catalog) initialWorld)) = ''agentX''"
    by (simp add: scenario_defs)
  show ?thesis
    using h1 h2
      createSession_any_agent [of "''s1''" "''now''" 1 1 "''agentX''" initialWorld]
      createSession_any_agent
        [of "''s1''" "''now''" 1 1 "''agentX''" "loadAgents (Some catalog) initialWorld"]
    by simp
qed

text \<open>
  C6 as stated fails: called with the empty agent string, \<open>createSession\<close> constructs,
  persists and selects a session whose agent is empty.
\<close>

theorem createSession_empty_agent:
  "fst (createSession ''s1'' ''now'' 1 1 [] initialWorld) =
     \<lparr>s_id = ''s1'', s_name = ''Chat now'', s_agent = [], s_messages = [],
      s_createdAt = 1, s_updatedAt = 1\<rparr>
   \<and> db (snd (createSession ''s1'' ''now'' 1 1 [] initialWorld)) =
     [\<lparr>s_id = ''s1'', s_name = ''Chat now'', s_agent = [], s_messages = [],
       s_createdAt = 1, s_updatedAt = 1\<rparr>]
   \<and> currentSession (store (snd (createSession ''s1'' ''now'' 1 1 [] initialWorld))) =
     Some \<lparr>s_id = ''s1'', s_name = ''Chat now'', s_agent = [], s_messages = [],
      s_createdAt = 1, s_updatedAt = 1\<rparr>"
  by (simp add: scenario_defs)

text \<open>
  C7, as amended. On a successful catalog fetch \<open>loadAgents\<close> replaces the agent list and
  sets the selected agent to the name of the first returned agent, or to the empty string
  when the catalog is empty, whatever was selected before; nothing else changes. On a
  failed fetch the state is left as it was.
\<close>

theorem loadAgents_effect:
  "loadAgents None w = w
   \<and> agents (store (loadAgents (Some ags) w)) = ags
   \<and> selectedAgent (store (loadAgents (Some ags) w)) =
       (if ags = [] then [] else a_name (hd ags))
   \<and> loadAgents (Some ags) w =
       w\<lparr>store := (store w)\<lparr>agents := agents (store (loadAgents (Some ags) w)),
            selectedAgent := selectedAgent (store (loadAgents (Some ags) w))\<rparr>\<rparr>"
  by (simp add: loadAgents_def)

text \<open>
  C7 as stated fails: with agentB selected, a successful fetch returning agentA first
  changes the selection to agentA.
\<close>

theorem loadAgents_overrides_selection:
  "selectedAgent (store (setSelectedAgent ''agentB'' initialWorld)) = ''agentB''
   \<and> selectedAgent (store
        (loadAgents (Some [\<lparr>a_name = ''agentA'', a_description = [], a_capabilities = [],
                            a_status = ''ready''\<rparr>])
           (setSelectedAgent ''agentB'' initialWorld))) = ''agentA''"
  by (simp add: scenario_defs)

section \<open>Messages\<close>

text \<open>
  C8. After any sequence of \<open>sendMessage\<close> calls, settled Request Mode calls and frames, the
  selected session is the same session and its message list is the previous one with every
  element but the last kept in place, the last kept up to text concatenated to its content,
  and further messages appended. The in-memory list keeps every session with another id as
  it was, and holds the grown session wherever it held the selected one.
\<close>

theorem messages_append_only:
  assumes "currentSession (store w) = Some cs"
  shows "\<exists>u. currentSession (store (run evs w)) = Some u \<and> s_id u = s_id cs \<and>
           (s_messages cs = [] \<or>
            (\<exists>c suf. s_messages u =
               butlast (s_messages cs) @
               [(last (s_messages cs))\<lparr>m_content := m_content (last (s_messages cs)) @ c\<rparr>] @
               suf)) \<and>
           length (sessions (store (run evs w))) = length (sessions (store w)) \<and>
           (\<forall>i < length (sessions (store w)).
              (s_id (sessions (store w) ! i) \<noteq> s_id cs \<longrightarrow>
                 sessions (store (run evs w)) ! i = sessions (store w) ! i) \<and>
              (sessions (store w) ! i = cs \<longrightarrow> sessions (store (run evs w)) ! i = u))"
proof -
  have "curGrown cs w w"
    using assms by (simp add: curGrown_def grown_refl)
  then have "curGrown cs w (run evs w)"
    by (rule curGrown_run)
  then show ?thesis
    unfolding curGrown_def grown_def .
qed

text \<open>
  C8 on a run from the state after the send of "hi" over the open channel, with chat s2
  selected and chat s1 first in the list: two chunks, the completion, and a second send.
\<close>

theorem messages_append_only_witness:
  "map_option (map m_content \<circ> s_messages)
     (currentSession (store (snd (sendMessage_start ''m1'' 3 3 ''hi'' twoSessionsStream))))
     = Some [''hi'']
   \<and> map_option (map m_content \<circ> s_messages)
       (currentSession (store
          (run [EFrame 0 ''e1'' 4 4 (chunkFrame ''He''), EFrame 0 ''e2'' 5 5 (chunkFrame ''llo''),
                EFrame 0 ''e3'' 6 6 completeFrame, ESend ''m2'' 7 7 ''next'']
             (snd (sendMessage_start ''m1'' 3 3 ''hi'' twoSessionsStream)))))
     = Some [''hiHello'', ''next'']
   \<and> map s_id (sessions (store (snd (sendMessage_start ''m1'' 3 3 ''hi'' twoSessionsStream))))
     = [''s1'', ''s2'']
   \<and> sessions (store
          (run [EFrame 0 ''e1'' 4 4 (chunkFrame ''He''), EFrame 0 ''e2'' 5 5 (chunkFrame ''llo''),
                EFrame 0 ''e3'' 6 6 completeFrame, ESend ''m2'' 7 7 ''next'']
             (snd (sendMessage_start ''m1'' 3 3 ''hi'' twoSessionsStream)))) ! 0
     = sessions (store (snd (sendMessage_start ''m1'' 3 3 ''hi'' twoSessionsStream))) ! 0
   \<and> Some (sessions (store (snd (sendMessage_start ''m1'' 3 3 ''hi'' twoSessionsStream))) ! 1)
     = currentSession (store (snd (sendMessage_start ''m1'' 3 3 ''hi'' twoSessionsStream)))
   \<and> Some (sessions (store
          (run [EFrame 0 ''e1'' 4 4 (chunkFrame ''He''), EFrame 0 ''e2'' 5 5 (chunkFrame ''llo''),
                EFrame 0 ''e3'' 6 6 completeFrame, ESend ''m2'' 7 7 ''next'']
             (snd (sendMessage_start ''m1'' 3 3 ''hi'' twoSessionsStream)))) ! 1)
     = currentSession (store
          (run [EFrame 0 ''e1'' 4 4 (chunkFrame ''He''), EFrame 0 ''e2'' 5 5 (chunkFrame ''llo''),
                EFrame 0 ''e3'' 6 6 completeFrame, ESend ''m2'' 7 7 ''next'']
             (snd (sendMessage_start ''m1'' 3 3 ''hi'' twoSessionsStream))))"
proof -
  let ?w = "snd (sendMessage_start ''m1'' 3 3 ''hi'' twoSessionsStream)"
  let ?evs = "[EFrame 0 ''e1'' 4 4 (chunkFrame ''He''), EFrame 0 ''e2'' 5 5 (chunkFrame ''llo''),
               EFrame 0 ''e3'' 6 6 completeFrame, ESend ''m2'' 7 7 ''next'']"
  let ?cs = "\<lparr>s_id = ''s2'', s_name = ''Chat later'', s_agent = ''agentX'',
              s_messages = [\<lparr>m_id = ''m1'', m_role = User, m_content = ''hi'',
                             m_timestamp = 3, m_agent = None\<rparr>],
              s_createdAt = 2, s_updatedAt = 3\<rparr>"
  have h: "currentSession (store ?w) = Some ?cs"
    by (simp add: scenario_defs)
  have l: "map s_id (sessions (store ?w)) = [''s1'', ''s2'']"
    by (simp add: scenario_defs)
  have l0: "0 < length (sessions (store ?w)) \<and> s_id (sessions (store ?w) ! 0) \<noteq> s_id ?cs"
    by (simp add: scenario_defs)
  have l1: "1 < length (sessions (store ?w)) \<and> sessions (store ?w) ! 1 = ?cs"
    by (simp add: scenario_defs)
  have e: "map_option (map m_content \<circ> s_messages) (currentSession (store (run ?evs ?w)))
      = Some [''hiHello'', ''next'']"
    by (simp add: scenario_defs)
  from messages_append_only [OF h, of ?evs] obtain u
    where u: "currentSession (store (run ?evs ?w)) = Some u"
      and k: "\<forall>i < length (sessions (store ?w)).
                (s_id (sessions (store ?w) ! i) \<noteq> s_id ?cs \<longrightarrow>
                   sessions (store (run ?evs ?w)) ! i = sessions (store ?w) ! i) \<and>
                (sessions (store ?w) ! i = ?cs \<longrightarrow> sessions (store (run ?evs ?w)) ! i = u)"
    by blast
  have k0: "sessions (store (run ?evs ?w)) ! 0 = sessions (store ?w) ! 0"
    using k l0 by blast
  have k1: "Some (sessions (store (run ?evs ?w)) ! 1) = currentSession (store (run ?evs ?w))"
    using k l1 u by simp
  have c1: "Some (sessions (store ?w) ! 1) = currentSession (store ?w)"
    using l1 h by simp
  have c0: "map_option (map m_content \<circ> s_messages) (currentSession (store ?w)) = Some [''hi'']"
    by (simp add: h)
  show ?thesis
    using c0 e l k0 c1 k1 by blast
qed

text \<open>
  C9. When \<open>sendMessage\<close> is called with the mode set to Stream Mode but no channel handle
  stored, the message goes the Request Mode way: the call \<open>{message, session id, agent}\<close> is
  issued, nothing is sent over any channel, and once the call has settled the session's
  messages are the previous ones, the user message, and one assistant message: the reply,
  or the error text prefixed with "Error: "; the sending flag is then false.
\<close>

theorem websocket_without_channel_uses_request:
  assumes "currentSession (store w) = Some cs"
      and "connectionMode (store w) = WebSocket"
      and "wsConnection (store w) = None"
  shows "fst (sendMessage_start mid t now c w) =
           Awaiting \<lparr>rq_message = c, rq_session_id = s_id cs,
                     rq_agent = selectedAgent (store w)\<rparr>
       \<and> calls (snd (sendMessage_start mid t now c w)) =
           calls w @ [\<lparr>rq_message = c, rq_session_id = s_id cs,
                       rq_agent = selectedAgent (store w)\<rparr>]
       \<and> sockets (snd (sendMessage_start mid t now c w)) = sockets w
       \<and> (\<exists>u. currentSession (store (sendMessage mid t now c aid t' now' r w)) = Some u
              \<and> s_messages u = s_messages cs @
                  [\<lparr>m_id = mid, m_role = User, m_content = c, m_timestamp = t,
                    m_agent = None\<rparr>,
                   \<lparr>m_id = aid, m_role = Assistant,
                    m_content = (case r of Inr response \<Rightarrow> rs_message response
                                 | Inl d \<Rightarrow> ''Error: '' @ errDetail d),
                    m_timestamp = t',
                    m_agent = (case r of Inr response \<Rightarrow> Some (rs_agent response)
                               | Inl d \<Rightarrow> None)\<rparr>])
       \<and> isSending (store (sendMessage mid t now c aid t' now' r w)) = False"
  using assms
  by (cases r) (simp_all add: sendMessage_def sendMessage_start_def sendMessage_settle_def
      addMessage_def setSending_def Let_def)

text \<open>
  C9 at \<open>oneSession\<close> switched to Stream Mode with no channel connected, once with a reply
  and once with a rejection carrying a detail.
\<close>

theorem websocket_without_channel_uses_request_witness:
  "map_option s_id (currentSession (store (setConnectionMode WebSocket oneSession))) = Some ''s1''
   \<and> connectionMode (store (setConnectionMode WebSocket oneSession)) = WebSocket
   \<and> wsConnection (store (setConnectionMode WebSocket oneSession)) = None
   \<and> fst (sendMessage_start ''m1'' 2 2 ''hi'' (setConnectionMode WebSocket oneSession)) =
       Awaiting \<lparr>rq_message = ''hi'', rq_session_id = ''s1'', rq_agent = ''agentX''\<rparr>
   \<and> map_option (map m_content \<circ> s_messages)
       (currentSession (store
          (sendMessage ''m1'' 2 2 ''hi'' ''a1'' 3 3
             (Inr \<lparr>rs_message = ''hello'', rs_agent = ''agentX'', rs_session_id = ''s1'',
                   rs_timestamp = ''t''\<rparr>)
             (setConnectionMode WebSocket oneSession))))
       = Some [''hi'', ''hello'']
   \<and> map_option (map m_content \<circ> s_messages)
       (currentSession (store
          (sendMessage ''m1'' 2 2 ''hi'' ''a1'' 3 3 (Inl (Some ''backend unavailable''))
             (setConnectionMode WebSocket oneSession))))
       = Some [''hi'', ''Error: backend unavailable'']"
proof -
  have h1: "currentSession (store (setConnectionMode WebSocket oneSession)) =
      Some \<lparr>s_id = ''s1'', s_name = ''Chat now'', s_agent = ''agentX'', s_messages = [],
            s_createdAt = 1, s_updatedAt = 1\<rparr>"
    by (simp add: scenario_defs)
  have h2: "connectionMode (store (setConnectionMode WebSocket oneSession)) = WebSocket"
    by (simp add: scenario_defs)
  have h3: "wsConnection (store (setConnectionMode WebSocket oneSession)) = None"
    by (simp add: scenario_defs)
  have h4: "selectedAgent (store (setConnectionMode WebSocket oneSession)) = ''agentX''"
    by (simp add: scenario_defs)
  have e1: "map_option (map m_content \<circ> s_messages)
       (currentSession (store
          (sendMessage ''m1'' 2 2 ''hi'' ''a1'' 3 3
             (Inr \<lparr>rs_message = ''hello'', rs_agent = ''agentX'', rs_session_id = ''s1'',
                   rs_timestamp = ''t''\<rparr>)
             (setConnectionMode WebSocket oneSession))))
       = Some [''hi'', ''hello'']"
    by (simp add: scenario_defs)
  have e2: "map_option (map m_content \<circ> s_messages)
       (currentSession (store
          (sendMessage ''m1'' 2 2 ''hi'' ''a1'' 3 3 (Inl (Some ''backend unavailable''))
             (setConnectionMode WebSocket oneSession))))
       = Some [''hi'', ''Error: backend unavailable'']"
    by (simp add: scenario_defs)
  show ?thesis
    using h1 h2 h3 h4 e1 e2
      websocket_without_channel_uses_request [OF h1 h2 h3, of "''m1''" 2 2 "''hi''"]
    by simp
qed

text \<open>
  C10. With a session selected, \<open>addMessage\<close> changes of the selected session only the
  message list and \<open>updatedAt\<close>: id, name, agent and \<open>createdAt\<close> are kept; the in-memory
  list keeps its length and every entry with a different id. The same holds of
  \<open>updateLastMessage\<close> when the message list is not empty.
\<close>

theorem message_mutation_frame:
  assumes "currentSession (store w) = Some cs"
  shows "(\<exists>u. currentSession (store (addMessage now m w)) = Some u
            \<and> s_id u = s_id cs \<and> s_name u = s_name cs \<and> s_agent u = s_agent cs
            \<and> s_createdAt u = s_createdAt cs
            \<and> s_messages u = s_messages cs @ [m] \<and> s_updatedAt u = now)
       \<and> length (sessions (store (addMessage now m w))) = length (sessions (store w))
       \<and> (\<forall>i < length (sessions (store w)).
             s_id (sessions (store w) ! i) \<noteq> s_id cs \<longrightarrow>
             sessions (store (addMessage now m w)) ! i = sessions (store w) ! i)
       \<and> (s_messages cs \<noteq> [] \<longrightarrow>
            (\<exists>u. currentSession (store (updateLastMessage now c w)) = Some u
               \<and> s_id u = s_id cs \<and> s_name u = s_name cs \<and> s_agent u = s_agent cs
               \<and> s_createdAt u = s_createdAt cs
               \<and> length (s_messages u) = length (s_messages cs) \<and> s_updatedAt u = now)
          \<and> length (sessions (store (updateLastMessage now c w))) = length (sessions (store w))
          \<and> (\<forall>i < length (sessions (store w)).
                s_id (sessions (store w) ! i) \<noteq> s_id cs \<longrightarrow>
                sessions (store (updateLastMessage now c w)) ! i = sessions (store w) ! i))"
  using assms by (simp add: addMessage_def updateLastMessage_def Let_def)

text \<open>
  C10 at \<open>twoSessions\<close> after a send (chat s2 selected, with one message; chat s1 first in
  the list): both operations keep the entry of chat s1.
\<close>

theorem message_mutation_frame_witness:
  "map_option s_id (currentSession (store (snd (sendMessage_start ''m1'' 3 3 ''hi'' twoSessions))))
     = Some ''s2''
   \<and> map s_id (sessions (store (snd (sendMessage_start ''m1'' 3 3 ''hi'' twoSessions))))
     = [''s1'', ''s2'']
   \<and> sessions (store (addMessage 9
        \<lparr>m_id = ''a1'', m_role = Assistant, m_content = ''hello'', m_timestamp = 9,
          m_agent = None\<rparr>
        (snd (sendMessage_start ''m1'' 3 3 ''hi'' twoSessions)))) ! 0
     = sessions (store (snd (sendMessage_start ''m1'' 3 3 ''hi'' twoSessions))) ! 0
   \<and> sessions (store (updateLastMessage 9 ''He''
        (snd (sendMessage_start ''m1'' 3 3 ''hi'' twoSessions)))) ! 0
     = sessions (store (snd (sendMessage_start ''m1'' 3 3 ''hi'' twoSessions))) ! 0"
proof -
  have h: "currentSession (store (snd (sendMessage_start ''m1'' 3 3 ''hi'' twoSessions))) =
      Some \<lparr>s_id = ''s2'', s_name = ''Chat later'', s_agent = ''agentX'',
            s_messages = [\<lparr>m_id = ''m1'', m_role = User, m_content = ''hi'',
                           m_timestamp = 3, m_agent = None\<rparr>],
            s_createdAt = 2, s_updatedAt = 3\<rparr>"
    by (simp add: scenario_defs)
  have l: "map s_id (sessions (store (snd (sendMessage_start ''m1'' 3 3 ''hi'' twoSessions))))
     = [''s1'', ''s2'']"
    by (simp add: scenario_defs)
  then have l0: "0 < length (sessions (store (snd (sendMessage_start ''m1'' 3 3 ''hi'' twoSessions))))
      \<and> s_id (sessions (store (snd (sendMessage_start ''m1'' 3 3 ''hi'' twoSessions))) ! 0)
          \<noteq> ''s2''"
    by (simp add: scenario_defs)
  show ?thesis
    using h l l0
      message_mutation_frame [OF h, of 9
        "\<lparr>m_id = ''a1'', m_role = Assistant, m_content = ''hello'', m_timestamp = 9,
          m_agent = None\<rparr>" "''He''"]
    by simp
qed

end
